theory Spec2Isabelle
  imports Main "HOL-Library.Word" "HOL-Library.Sublist"
begin

unbundle bit_operations_syntax

section \<open>Values of the host language\<close>

text \<open>
  The program is TypeScript running on Bun. A string value is modelled as \<^typ>\<open>string\<close>, each
  \<^typ>\<open>char\<close> standing for one UTF-16 code unit in the range 0..255 (the Latin-1 part of
  Unicode); a byte buffer (\<open>Uint8Array\<close>) is a list of 8-bit words.
\<close>

type_synonym byte = "8 word"
type_synonym u32 = "32 word"

text \<open>Exceptions are values: every \<open>throw\<close> of the source or of the platform is an \<open>Inl\<close>.\<close>

datatype error =
    DataError
  | TypeError
  | SyntaxError string
  | Error string

section \<open>Platform: HMAC-SHA256 (\<open>crypto.subtle\<close>)\<close>

text \<open>
  \<open>crypto.subtle\<close> is provided by the runtime, not by the repository. Its HMAC with SHA-256 is
  written out here after FIPS 180-4 and RFC 2104, on 32-bit words, so that the MAC of a concrete
  key and message is a closed, computable term.
\<close>

definition rotr :: "nat \<Rightarrow> u32 \<Rightarrow> u32" where
  "rotr n x = drop_bit n x OR push_bit (32 - n) x"

definition ch :: "u32 \<Rightarrow> u32 \<Rightarrow> u32 \<Rightarrow> u32" where
  "ch x y z = (x AND y) XOR (NOT x AND z)"

definition maj :: "u32 \<Rightarrow> u32 \<Rightarrow> u32 \<Rightarrow> u32" where
  "maj x y z = (x AND y) XOR (x AND z) XOR (y AND z)"

definition bsig0 :: "u32 \<Rightarrow> u32" where
  "bsig0 x = rotr 2 x XOR rotr 13 x XOR rotr 22 x"

definition bsig1 :: "u32 \<Rightarrow> u32" where
  "bsig1 x = rotr 6 x XOR rotr 11 x XOR rotr 25 x"

definition ssig0 :: "u32 \<Rightarrow> u32" where
  "ssig0 x = rotr 7 x XOR rotr 18 x XOR drop_bit 3 x"

definition ssig1 :: "u32 \<Rightarrow> u32" where
  "ssig1 x = rotr 17 x XOR rotr 19 x XOR drop_bit 10 x"

definition sha256_K :: "u32 list" where
  "sha256_K =
    [0x428A2F98, 0x71374491, 0xB5C0FBCF, 0xE9B5DBA5, 0x3956C25B, 0x59F111F1, 0x923F82A4, 0xAB1C5ED5,
     0xD807AA98, 0x12835B01, 0x243185BE, 0x550C7DC3, 0x72BE5D74, 0x80DEB1FE, 0x9BDC06A7, 0xC19BF174,
     0xE49B69C1, 0xEFBE4786, 0x0FC19DC6, 0x240CA1CC, 0x2DE92C6F, 0x4A7484AA, 0x5CB0A9DC, 0x76F988DA,
     0x983E5152, 0xA831C66D, 0xB00327C8, 0xBF597FC7, 0xC6E00BF3, 0xD5A79147, 0x06CA6351, 0x14292967,
     0x27B70A85, 0x2E1B2138, 0x4D2C6DFC, 0x53380D13, 0x650A7354, 0x766A0ABB, 0x81C2C92E, 0x92722C85,
     0xA2BFE8A1, 0xA81A664B, 0xC24B8B70, 0xC76C51A3, 0xD192E819, 0xD6990624, 0xF40E3585, 0x106AA070,
     0x19A4C116, 0x1E376C08, 0x2748774C, 0x34B0BCB5, 0x391C0CB3, 0x4ED8AA4A, 0x5B9CCA4F, 0x682E6FF3,
     0x748F82EE, 0x78A5636F, 0x84C87814, 0x8CC70208, 0x90BEFFFA, 0xA4506CEB, 0xBEF9A3F7, 0xC67178F2]"

definition sha256_H0 :: "u32 list" where
  "sha256_H0 =
    [0x6A09E667, 0xBB67AE85, 0x3C6EF372, 0xA54FF53A, 0x510E527F, 0x9B05688C, 0x1F83D9AB, 0x5BE0CD19]"

text \<open>Big-endian conversions between words and bytes.\<close>

definition be32 :: "byte list \<Rightarrow> u32" where
  "be32 bs = foldl (\<lambda>acc b. push_bit 8 acc OR ucast b) 0 bs"

definition u32_bytes :: "u32 \<Rightarrow> byte list" where
  "u32_bytes w = [ucast (drop_bit 24 w), ucast (drop_bit 16 w), ucast (drop_bit 8 w), ucast w]"

definition u64_bytes :: "64 word \<Rightarrow> byte list" where
  "u64_bytes w = map (\<lambda>i. ucast (drop_bit (8 * (7 - i)) w)) [0..<8]"

definition sha256_pad :: "byte list \<Rightarrow> byte list" where
  "sha256_pad m =
     m @ [0x80] @ replicate ((119 - length m mod 64) mod 64) 0 @ u64_bytes (of_nat (8 * length m))"

fun chunks :: "nat \<Rightarrow> 'a list \<Rightarrow> 'a list list" where
  "chunks n [] = []"
| "chunks n (x # xs) =
     (if n = 0 then [] else take n (x # xs) # chunks n (drop n (x # xs)))"

text \<open>The schedule is kept newest-first: the head is the word computed last.\<close>

fun schedule :: "nat \<Rightarrow> u32 list \<Rightarrow> u32 list" where
  "schedule 0 ws = ws"
| "schedule (Suc n) ws =
     schedule n ((ssig1 (ws ! 1) + ws ! 6 + ssig0 (ws ! 14) + ws ! 15) # ws)"

fun sha256_round :: "u32 list \<Rightarrow> u32 \<times> u32 \<Rightarrow> u32 list" where
  "sha256_round [a, b, c, d, e, f, g, h] (k, w) =
     (let t1 = h + bsig1 e + ch e f g + k + w;
          t2 = bsig0 a + maj a b c
      in [t1 + t2, a, b, c, d + t1, e, f, g])"
| "sha256_round s _ = s"

definition sha256_block :: "u32 list \<Rightarrow> byte list \<Rightarrow> u32 list" where
  "sha256_block hs blk =
     (let w = rev (schedule 48 (rev (map be32 (chunks 4 blk))))
      in map2 (+) hs (foldl sha256_round hs (zip sha256_K w)))"

definition sha256 :: "byte list \<Rightarrow> byte list" where
  "sha256 m = concat (map u32_bytes (foldl sha256_block sha256_H0 (chunks 64 (sha256_pad m))))"

definition hmac_sha256 :: "byte list \<Rightarrow> byte list \<Rightarrow> byte list" where
  "hmac_sha256 key msg =
     (let k0 = (if length key > 64 then sha256 key else key);
          k = k0 @ replicate (64 - length k0) 0
      in sha256 (map (\<lambda>b. b XOR 0x5c) k @ sha256 (map (\<lambda>b. b XOR 0x36) k @ msg)))"

text \<open>
  \<open>crypto.subtle.importKey("raw", keyData, {name: "HMAC", hash: {name: "SHA-256"}}, false,
  ["verify"])\<close>. The HMAC import operation of the Web Cryptography API rejects key data of
  length zero with a \<open>DataError\<close>; any other raw key is accepted as it is.
\<close>

definition importKey :: "byte list \<Rightarrow> error + byte list" where
  "importKey keyData = (if length keyData = 0 then Inl DataError else Inr keyData)"

text \<open>
  \<open>crypto.subtle.verify("HMAC", key, signature, data)\<close>: the MAC of \<open>data\<close> is computed and
  the result is whether it equals \<open>signature\<close>, as byte sequences.
\<close>

definition subtle_verify :: "byte list \<Rightarrow> byte list \<Rightarrow> byte list \<Rightarrow> bool" where
  "subtle_verify key signature data = (hmac_sha256 key data = signature)"

text \<open>
  \<open>new TextEncoder().encode(s)\<close>: UTF-8. A code unit below 128 is one byte, one from 128 to 255
  is two bytes.
\<close>

definition TextEncoder_encode :: "string \<Rightarrow> byte list" where
  "TextEncoder_encode s =
     concat (map (\<lambda>c. let n = (of_char c :: nat)
                       in if n < 128 then [of_nat n]
                          else [of_nat (192 + n div 64), of_nat (128 + n mod 64)]) s)"

section \<open>Platform: string and number primitives\<close>

text \<open>
  \<open>s.replace(pattern, replacement)\<close> with a string pattern: only the first occurrence of the
  pattern, wherever it is, is replaced. (The program's replacement is the empty string, so the
  \<open>$\<close> patterns of a replacement string play no part.)
\<close>

fun String_replace :: "string \<Rightarrow> string \<Rightarrow> string \<Rightarrow> string" where
  "String_replace pat rep [] = (if pat = [] then rep else [])"
| "String_replace pat rep (c # cs) =
     (if prefix pat (c # cs) then rep @ drop (length pat) (c # cs)
      else c # String_replace pat rep cs)"

text \<open>\<open>s.slice(a, b)\<close> for indices \<open>0 \<le> a\<close>, \<open>0 \<le> b\<close>; both are clamped to the length.\<close>

definition slice :: "string \<Rightarrow> nat \<Rightarrow> nat \<Rightarrow> string" where
  "slice s a b = take (b - a) (drop a s)"

text \<open>White space and line terminators of ECMAScript among the code units 0..255.\<close>

definition isWhiteSpace :: "char \<Rightarrow> bool" where
  "isWhiteSpace c = ((of_char c :: nat) \<in> {9, 10, 11, 12, 13, 32, 160})"

definition digitValue :: "char \<Rightarrow> nat option" where
  "digitValue c =
     (let n = (of_char c :: nat)
      in if 48 \<le> n \<and> n \<le> 57 then Some (n - 48)
         else if 97 \<le> n \<and> n \<le> 122 then Some (n - 87)
         else if 65 \<le> n \<and> n \<le> 90 then Some (n - 55)
         else None)"

definition isRadixDigit :: "nat \<Rightarrow> char \<Rightarrow> bool" where
  "isRadixDigit r c = (case digitValue c of None \<Rightarrow> False | Some d \<Rightarrow> d < r)"

text \<open>
  \<open>parseInt(string, radix)\<close> of ECMAScript; \<open>None\<close> is \<open>NaN\<close>. Leading white space is
  skipped, a sign is read, for radix 16 (or 0) a prefix \<open>0x\<close>/\<open>0X\<close> is skipped, and the longest
  run of digits is the value; what follows the digits is ignored. (The result is exact here: the
  program passes at most two characters.)
\<close>

definition parseInt :: "string \<Rightarrow> int \<Rightarrow> int option" where
  "parseInt str radix =
     (let s0 = dropWhile isWhiteSpace str;
          sign = (if s0 \<noteq> [] \<and> hd s0 = CHR ''-'' then - 1 else 1 :: int);
          s1 = (if s0 \<noteq> [] \<and> (hd s0 = CHR ''+'' \<or> hd s0 = CHR ''-'') then tl s0 else s0)
      in if radix \<noteq> 0 \<and> (radix < 2 \<or> radix > 36) then None
         else
           let stripPrefix = (radix = 0 \<or> radix = 16);
               hasPrefix = (stripPrefix \<and> (take 2 s1 = ''0x'' \<or> take 2 s1 = ''0X''));
               r = (if hasPrefix then 16 else if radix = 0 then 10 else nat radix);
               s2 = (if hasPrefix then drop 2 s1 else s1);
               z = takeWhile (isRadixDigit r) s2
           in if z = [] then None
              else Some (sign * int (foldl (\<lambda>acc c. acc * r + the (digitValue c)) 0 z)))"

text \<open>
  Storing a number into an element of a \<open>Uint8Array\<close>: \<open>NaN\<close> is stored as 0, an integer
  modulo 256.
\<close>

definition toUint8 :: "int option \<Rightarrow> byte" where
  "toUint8 v = (case v of None \<Rightarrow> 0 | Some n \<Rightarrow> word_of_int n)"

text \<open>
  \<open>bytes[k] = v\<close> on a typed array: an index outside the array is ignored, the array never
  grows.
\<close>

definition typed_set :: "byte list \<Rightarrow> nat \<Rightarrow> byte \<Rightarrow> byte list" where
  "typed_set bytes k v = (if k < length bytes then bytes[k := v] else bytes)"

section \<open>\<open>CryptoUtils\<close> (src/utils/crypto.ts)\<close>

text \<open>
  \<open>hexToBuffer\<close>: \<open>new Uint8Array(hex.length / 2)\<close> has \<open>hex.length div 2\<close> elements (a fractional
  length is truncated), all 0; the loop visits \<open>i = 0, 2, 4, ...\<close> while \<open>i < hex.length\<close>.
\<close>

function hexToBuffer_loop :: "string \<Rightarrow> nat \<Rightarrow> byte list \<Rightarrow> byte list" where
  "hexToBuffer_loop hex i bytes =
     (if i < length hex
      then hexToBuffer_loop hex (i + 2)
             (typed_set bytes (i div 2) (toUint8 (parseInt (slice hex i (i + 2)) 16)))
      else bytes)"
  by pat_completeness auto
termination
  by (relation "measure (\<lambda>(hex, i, bytes). length hex - i)") auto

declare hexToBuffer_loop.simps [simp del]

definition hexToBuffer :: "string \<Rightarrow> byte list" where
  "hexToBuffer hex = hexToBuffer_loop hex 0 (replicate (length hex div 2) 0)"

text \<open>The body of the \<open>try\<close> block of \<open>verifyGitHubSignature\<close>.\<close>

definition verifyGitHubSignature_try :: "string \<Rightarrow> string \<Rightarrow> string \<Rightarrow> error + bool" where
  "verifyGitHubSignature_try signature payload secret =
     (let signatureBuffer = hexToBuffer (String_replace ''sha256='' '''' signature)
      in case importKey (TextEncoder_encode secret) of
           Inl e \<Rightarrow> Inl e
         | Inr key \<Rightarrow> Inr (subtle_verify key signatureBuffer (TextEncoder_encode payload)))"

text \<open>The \<open>catch\<close> clause reports the error on the console and returns \<open>false\<close>.\<close>

definition verifyGitHubSignature :: "string \<Rightarrow> string \<Rightarrow> string \<Rightarrow> bool" where
  "verifyGitHubSignature signature payload secret =
     (case verifyGitHubSignature_try signature payload secret of
        Inl e \<Rightarrow> False
      | Inr ok \<Rightarrow> ok)"

text \<open>The lowercase hexadecimal encoding of a byte sequence, two digits per byte.\<close>

definition hexdigits :: string where
  "hexdigits = ''0123456789abcdef''"

definition hexEncode :: "byte list \<Rightarrow> string" where
  "hexEncode bs = concat (map (\<lambda>b. [hexdigits ! (unat b div 16), hexdigits ! (unat b mod 16)]) bs)"

section \<open>Signature headers\<close>


text \<open>\<open>toLowerCase\<close> on the letters A to Z; other code units below 128 are unchanged.\<close>

definition toLowerCase :: "char \<Rightarrow> char" where
  "toLowerCase c =
     (let n = (of_char c :: nat) in if 65 \<le> n \<and> n \<le> 90 then char_of (n + 32) else c)"



text \<open>
  The bytes \<open>hexToBuffer\<close> produces, read off the string two characters at a time; a last
  single character falls outside the buffer.
\<close>

fun decodePairs :: "string \<Rightarrow> byte list" where
  "decodePairs (a # b # cs) = toUint8 (parseInt [a, b] 16) # decodePairs cs"
| "decodePairs _ = []"

section \<open>JSON values and the configuration (src/config)\<close>

text \<open>
  A value of the configuration or of a parsed payload. Numbers are modelled as integers; an
  object is the list of its own properties. \<open>JFunction\<close> is a built-in method, which a
  property read can return although no file or payload contains one.
\<close>

datatype jsval =
    JUndefined
  | JNull
  | JBool bool
  | JNum int
  | JStr string
  | JArr "jsval list"
  | JObj "(string \<times> jsval) list"
  | JFunction string

text \<open>Truthiness, as \<open>if (v)\<close> and \<open>!v\<close> test it.\<close>

fun truthy :: "jsval \<Rightarrow> bool" where
  "truthy JUndefined = False"
| "truthy JNull = False"
| "truthy (JBool b) = b"
| "truthy (JNum n) = (n \<noteq> 0)"
| "truthy (JStr s) = (s \<noteq> [])"
| "truthy (JArr _) = True"
| "truthy (JObj _) = True"
| "truthy (JFunction _) = True"

text \<open>
  Reading a property \<open>v[k]\<close>, also by destructuring: \<open>null\<close> and \<open>undefined\<close> throw a
  \<open>TypeError\<close>, an object gives its own property or \<open>undefined\<close>. Inherited properties are
  modelled for the keys the program reads (\<open>app\<close>, \<open>debug\<close>, \<open>events\<close>, \<open>events_config\<close>,
  \<open>push\<close>, \<open>workflow_run\<close>, \<open>workflow_job\<close>, \<open>action\<close>, \<open>ref\<close>): among them only \<open>push\<close>
  names one, the method \<open>Array.prototype.push\<close> of every array. For those keys a string, a
  number, a boolean and a function give \<open>undefined\<close>.
\<close>

fun getProp :: "jsval \<Rightarrow> string \<Rightarrow> error + jsval" where
  "getProp JUndefined k = Inl TypeError"
| "getProp JNull k = Inl TypeError"
| "getProp (JObj kvs) k = Inr (case map_of kvs k of None \<Rightarrow> JUndefined | Some v \<Rightarrow> v)"
| "getProp (JArr xs) k = Inr (if k = ''push'' then JFunction ''push'' else JUndefined)"
| "getProp _ k = Inr JUndefined"

text \<open>An optional string argument is falsy when it is left out or empty.\<close>

definition given :: "string option \<Rightarrow> bool" where
  "given a = (case a of None \<Rightarrow> False | Some s \<Rightarrow> s \<noteq> [])"

definition quoted :: "string \<Rightarrow> string" where
  "quoted s = [CHR 0x27] @ s @ [CHR 0x27]"

text \<open>
  \<open>ConfigManager.get(section?, key?)\<close>; the first argument is the field \<open>config\<close> of the
  manager, \<open>None\<close> while nothing is loaded.
\<close>

definition Config_get :: "jsval option \<Rightarrow> string option \<Rightarrow> string option \<Rightarrow> error + jsval" where
  "Config_get config section key =
     (case config of
        None \<Rightarrow> Inl (Error ''Configuration not loaded. Call load() first.'')
      | Some cfg \<Rightarrow>
          if \<not> given section then Inr cfg
          else
            (case getProp cfg (the section) of
               Inl e \<Rightarrow> Inl e
             | Inr sectionData \<Rightarrow>
                 if \<not> truthy sectionData
                 then Inl (Error (''Configuration section '' @ quoted (the section) @ '' not found''))
                 else if \<not> given key then Inr sectionData
                 else
                   (case getProp sectionData (the key) of
                      Inl e \<Rightarrow> Inl e
                    | Inr v \<Rightarrow>
                        if v = JUndefined
                        then Inl (Error (''Configuration key '' @
                                         quoted (the section @ ''.'' @ the key) @ '' not found''))
                        else Inr v)))"

text \<open>The defaults that \<open>validateConfig\<close> merges the parsed file into.\<close>

definition defaultConfig :: jsval where
  "defaultConfig =
     JObj [
       (''app'', JObj [(''debug'', JBool False), (''port'', JNum 3000)]),
       (''github'', JObj [(''secret'', JStr [])]),
       (''discord'', JObj [(''webhook_url'', JStr [])]),
       (''events'', JObj [(''push'', JBool True), (''issues'', JBool True),
                          (''workflow_run'', JBool True), (''workflow_job'', JBool True)]),
       (''events_config'', JObj [
          (''push'', JObj [(''show_file_changes'', JBool True), (''max_commits_shown'', JNum 5),
                           (''show_commit_details'', JBool True), (''embed_color'', JNum 0x00ff00)]),
          (''issues'', JObj [(''show_labels'', JBool True), (''show_assignees'', JBool True),
                             (''embed_color'', JNum 0xff9900)]),
          (''workflow_run'', JObj [(''show_duration'', JBool True), (''show_conclusion'', JBool True),
                                   (''embed_color'', JNum 0x0099ff)]),
          (''workflow_job'', JObj [(''show_steps'', JBool False), (''show_runner'', JBool True),
                                   (''embed_color'', JNum 0x6600cc)])])]"

section \<open>Event handlers (src/events)\<close>

text \<open>
  The result of \<open>execute\<close>: how the promise settles (\<open>Inr ()\<close> fulfilled, \<open>Inl e\<close> rejected)
  and the messages handed to \<open>Webhook.send\<close>, the outbound notifications.

  \<open>Webhook\<close> (src/utils/webhook) is not among the sources. Its \<open>send\<close> is the parameter
  \<open>send\<close>, which may reject. The statements of an \<open>execute\<close> after its guards only build the
  argument of \<open>send\<close> from the configuration section and the payload, with helpers of
  \<open>Webhook\<close>; they are the parameter \<open>render\<close>, which may throw on a payload of another shape.
\<close>

type_synonym 'm exec_result = "(error + unit) \<times> 'm list"

definition PushEvent_execute ::
  "jsval option \<Rightarrow> (jsval \<Rightarrow> jsval \<Rightarrow> error + 'm) \<Rightarrow> ('m \<Rightarrow> error + unit) \<Rightarrow> jsval \<Rightarrow> 'm exec_result"
where
  "PushEvent_execute cfg render send payload =
     (case Config_get cfg (Some ''events'') (Some ''push'') of
        Inl e \<Rightarrow> (Inl e, [])
      | Inr enabled \<Rightarrow>
          if \<not> truthy enabled then (Inr (), [])
          else
            (case Config_get cfg (Some ''events_config'') (Some ''push'') of
               Inl e \<Rightarrow> (Inl e, [])
             | Inr config \<Rightarrow>
                 (case getProp payload ''ref'' of
                    Inl e \<Rightarrow> (Inl e, [])
                  | Inr ref \<Rightarrow>
                      (case render config payload of
                         Inl e \<Rightarrow> (Inl e, [])
                       | Inr m \<Rightarrow> (send m, [m])))))"

definition WorkflowRunEvent_execute ::
  "jsval option \<Rightarrow> (jsval \<Rightarrow> jsval \<Rightarrow> error + 'm) \<Rightarrow> ('m \<Rightarrow> error + unit) \<Rightarrow> jsval \<Rightarrow> 'm exec_result"
where
  "WorkflowRunEvent_execute cfg render send payload =
     (case Config_get cfg (Some ''events'') (Some ''workflow_run'') of
        Inl e \<Rightarrow> (Inl e, [])
      | Inr enabled \<Rightarrow>
          if \<not> truthy enabled then (Inr (), [])
          else
            (case Config_get cfg (Some ''events_config'') (Some ''workflow_run'') of
               Inl e \<Rightarrow> (Inl e, [])
             | Inr config \<Rightarrow>
                 (case getProp payload ''action'' of
                    Inl e \<Rightarrow> (Inl e, [])
                  | Inr action \<Rightarrow>
                      if action \<noteq> JStr ''completed'' then (Inr (), [])
                      else
                        (case render config payload of
                           Inl e \<Rightarrow> (Inl e, [])
                         | Inr m \<Rightarrow> (send m, [m])))))"

definition WorkflowJobEvent_execute ::
  "jsval option \<Rightarrow> (jsval \<Rightarrow> jsval \<Rightarrow> error + 'm) \<Rightarrow> ('m \<Rightarrow> error + unit) \<Rightarrow> jsval \<Rightarrow> 'm exec_result"
where
  "WorkflowJobEvent_execute cfg render send payload =
     (case Config_get cfg (Some ''events'') (Some ''workflow_job'') of
        Inl e \<Rightarrow> (Inl e, [])
      | Inr enabled \<Rightarrow>
          if \<not> truthy enabled then (Inr (), [])
          else
            (case Config_get cfg (Some ''events_config'') (Some ''workflow_job'') of
               Inl e \<Rightarrow> (Inl e, [])
             | Inr config \<Rightarrow>
                 (case getProp payload ''action'' of
                    Inl e \<Rightarrow> (Inl e, [])
                  | Inr action \<Rightarrow>
                      if action \<noteq> JStr ''completed'' then (Inr (), [])
                      else
                        (case render config payload of
                           Inl e \<Rightarrow> (Inl e, [])
                         | Inr m \<Rightarrow> (send m, [m])))))"

text \<open>
  A handler as the constructors of the event classes build it: \<open>super({name, events})\<close> and the
  method \<open>execute\<close>.
\<close>

record 'm Event =
  name :: string
  events :: "string list"
  execute :: "jsval \<Rightarrow> 'm exec_result"

definition PushEvent ::
  "jsval option \<Rightarrow> (jsval \<Rightarrow> jsval \<Rightarrow> error + 'm) \<Rightarrow> ('m \<Rightarrow> error + unit) \<Rightarrow> 'm Event" where
  "PushEvent cfg render send =
     \<lparr>name = ''PushEvent'', events = [''push''], execute = PushEvent_execute cfg render send\<rparr>"

definition WorkflowRunEvent ::
  "jsval option \<Rightarrow> (jsval \<Rightarrow> jsval \<Rightarrow> error + 'm) \<Rightarrow> ('m \<Rightarrow> error + unit) \<Rightarrow> 'm Event" where
  "WorkflowRunEvent cfg render send =
     \<lparr>name = ''WorkflowRunEvent'', events = [''workflow_run''],
      execute = WorkflowRunEvent_execute cfg render send\<rparr>"

definition WorkflowJobEvent ::
  "jsval option \<Rightarrow> (jsval \<Rightarrow> jsval \<Rightarrow> error + 'm) \<Rightarrow> ('m \<Rightarrow> error + unit) \<Rightarrow> 'm Event" where
  "WorkflowJobEvent cfg render send =
     \<lparr>name = ''WorkflowJobEvent'', events = [''workflow_job''],
      execute = WorkflowJobEvent_execute cfg render send\<rparr>"

section \<open>Effects of one request\<close>

text \<open>
  What serving a request does besides answering: the lines given to \<open>Logger\<close>, the handlers
  invoked with the way each \<open>execute\<close> settled, in order, and the messages handed to
  \<open>Webhook.send\<close>. (\<open>Logger\<close>, src/utils/logger, is not among the sources; its methods are taken
  to record the line and return.)
\<close>

datatype level = LLog | LWarn | LError | LDebug

record 'm effects =
  logged :: "(level \<times> string) list"
  invoked :: "(string \<times> (error + unit)) list"
  sent :: "'m list"

definition no_effects :: "'m effects" where
  "no_effects = \<lparr>logged = [], invoked = [], sent = []\<rparr>"

definition logging :: "level \<Rightarrow> string \<Rightarrow> 'm effects \<Rightarrow> 'm effects" where
  "logging l msg fx = fx\<lparr>logged := logged fx @ [(l, msg)]\<rparr>"

text \<open>The text of \<open>${error}\<close> in a template string.\<close>

fun errorText :: "error \<Rightarrow> string" where
  "errorText DataError = ''DataError''"
| "errorText TypeError = ''TypeError''"
| "errorText (SyntaxError m) = ''SyntaxError: '' @ m"
| "errorText (Error m) = ''Error: '' @ m"

section \<open>Event manager (src/managers/event-manager)\<close>

type_synonym 'm registry = "string \<rightharpoonup> 'm Event list"

text \<open>
  Modelled from the spec: the event manager (the object \<open>eventManager\<close> with \<open>register\<close> and
  \<open>emit\<close>, src/managers/event-manager) is not among the sources. \<open>lookup\<close> returns the ordered
  sequence of the handlers subscribed to an event type, the empty sequence when there is none.
\<close>

definition lookup :: "'m registry \<Rightarrow> string \<Rightarrow> 'm Event list" where
  "lookup index eventTypeId = (case index eventTypeId of None \<Rightarrow> [] | Some hs \<Rightarrow> hs)"

text \<open>
  Modelled from the spec: the event manager is not among the sources. \<open>register\<close>: for each
  handler, for each of its subscribed event-type identifiers, the handler is appended to that
  event type's ordered list.
\<close>

definition subscribe :: "'m Event \<Rightarrow> 'm registry \<Rightarrow> string \<Rightarrow> 'm registry" where
  "subscribe h index eventTypeId = index(eventTypeId \<mapsto> lookup index eventTypeId @ [h])"

definition register :: "'m Event list \<Rightarrow> 'm registry \<Rightarrow> 'm registry" where
  "register handlers index = foldl (\<lambda>idx h. foldl (subscribe h) idx (events h)) index handlers"

text \<open>
  Modelled from the spec: the event manager is not among the sources. \<open>emit\<close>: each handler
  returned by \<open>lookup\<close>, in registration order and one after the other, is invoked with the
  payload; an exception or rejection of a handler is caught and logged, and the dispatch goes on
  with the next handler. (The spec does not give the text of the log line; the handler's name and
  the error stand for it.)
\<close>

fun emit_handlers :: "'m Event list \<Rightarrow> jsval \<Rightarrow> 'm effects \<Rightarrow> 'm effects" where
  "emit_handlers [] payload fx = fx"
| "emit_handlers (h # hs) payload fx =
     (case execute h payload of
        (outcome, msgs) \<Rightarrow>
          let fx1 = fx\<lparr>invoked := invoked fx @ [(name h, outcome)], sent := sent fx @ msgs\<rparr>;
              fx2 = (case outcome of
                       Inl e \<Rightarrow> logging LError (name h @ '': '' @ errorText e) fx1
                     | Inr _ \<Rightarrow> fx1)
          in emit_handlers hs payload fx2)"

definition emit :: "'m registry \<Rightarrow> string \<Rightarrow> jsval \<Rightarrow> 'm effects \<Rightarrow> 'm effects" where
  "emit index eventType payload fx = emit_handlers (lookup index eventType) payload fx"

section \<open>\<open>WebhookServer\<close> (src/main.ts)\<close>

text \<open>
  A request as the server reads it: the path of its URL, its HTTP method, the three headers as
  \<open>req.headers.get\<close> returns them (\<open>None\<close> for \<open>null\<close>, the header is absent), and the text of
  its body (\<open>await req.text()\<close>).
\<close>

record request =
  pathname :: string
  httpMethod :: string
  contentType :: "string option"
  githubEvent :: "string option"
  hubSignature256 :: "string option"
  body :: string

datatype response = Response string nat

fun status :: "response \<Rightarrow> nat" where
  "status (Response text code) = code"

text \<open>
  The server and what it reaches: its \<open>secret\<close>, the loaded configuration, the index of the
  event manager, and of the platform \<open>JSON.parse\<close> (which throws a \<open>SyntaxError\<close> on malformed
  text) and the decimal text of \<open>new Date().getTime()\<close>.
\<close>

record 'm server =
  secret :: string
  config :: "jsval option"
  handlers :: "'m registry"
  JSON_parse :: "string \<Rightarrow> error + jsval"
  timestamp :: string

text \<open>
  \<open>handleGitHubWebhook\<close>. The outer \<open>catch\<close> answers 500 to whatever is thrown inside; here
  that is a failing \<open>Config.get\<close>. In debug mode the payload is also written to a file, and a
  failure of that write is ignored.
\<close>

definition handleGitHubWebhook :: "'m server \<Rightarrow> request \<Rightarrow> response \<times> 'm effects" where
  "handleGitHubWebhook srv req =
     (if contentType req \<noteq> Some ''application/json''
      then (Response ''Invalid content type'' 400,
            logging LWarn ''Invalid content type received'' no_effects)
      else if \<not> given (githubEvent req)
      then (Response ''Missing event type'' 400,
            logging LWarn ''Missing X-GitHub-Event header'' no_effects)
      else
        let eventType = the (githubEvent req)
        in if secret srv \<noteq> [] \<and> \<not> given (hubSignature256 req)
           then (Response ''Missing signature'' 401,
                 logging LWarn ''Missing signature header'' no_effects)
           else if secret srv \<noteq> [] \<and>
                   \<not> verifyGitHubSignature (the (hubSignature256 req)) (body req) (secret srv)
           then (Response ''Invalid signature'' 401,
                 logging LError ''Invalid webhook signature'' no_effects)
           else
             (case JSON_parse srv (body req) of
                Inl e \<Rightarrow>
                  (Response ''Invalid JSON'' 400,
                   logging LError (''Failed to parse JSON payload: '' @ errorText e) no_effects)
              | Inr payload \<Rightarrow>
                  (case Config_get (config srv) (Some ''app'') (Some ''debug'') of
                     Inl e \<Rightarrow>
                       (Response ''Internal Server Error'' 500,
                        logging LError (''Webhook processing failed: '' @ errorText e) no_effects)
                   | Inr debug \<Rightarrow>
                       let fx = (if truthy debug
                                 then logging LDebug
                                        (''Received '' @ eventType @ '' event ('' @ eventType @
                                         ''-'' @ timestamp srv @ '')'') no_effects
                                 else no_effects)
                       in (Response ''OK'' 202, emit (handlers srv) eventType payload fx))))"

text \<open>\<open>handleRequest\<close>: the routes.\<close>

definition handleRequest :: "'m server \<Rightarrow> request \<Rightarrow> response \<times> 'm effects" where
  "handleRequest srv req =
     (if pathname req = ''/health'' then (Response ''OK'' 200, no_effects)
      else if pathname req = ''/github'' \<and> httpMethod req = ''POST'' then handleGitHubWebhook srv req
      else (Response ''Not Found'' 404, no_effects))"

section \<open>Handlers and requests of the test scenarios\<close>

text \<open>
  Two handlers as in the scenarios of the specification: H1 subscribes to \<open>push\<close> and its
  \<open>execute\<close> raises; H2 subscribes to \<open>push\<close> and \<open>issues\<close> and sends one notification.
\<close>

definition H1 :: "string Event" where
  "H1 = \<lparr>name = ''H1'', events = [''push''],
         execute = (\<lambda>payload. (Inl (Error ''H1 failed''), []))\<rparr>"

definition H2 :: "string Event" where
  "H2 = \<lparr>name = ''H2'', events = [''push'', ''issues''],
         execute = (\<lambda>payload. (Inr (), [''H2 notification'']))\<rparr>"

text \<open>
  A server with the default configuration, H1 and H2 registered and the given secret; every
  body parses to the empty object.
\<close>

definition testServer :: "string \<Rightarrow> string server" where
  "testServer sec =
     \<lparr>secret = sec, config = Some defaultConfig, handlers = register [H1, H2] Map.empty,
      JSON_parse = (\<lambda>text. Inr (JObj [])), timestamp = ''0''\<rparr>"

text \<open>A \<open>push\<close> delivery to \<open>/github\<close> with the given content type and signature header.\<close>

definition pushRequest :: "string option \<Rightarrow> string option \<Rightarrow> request" where
  "pushRequest ctype sig =
     \<lparr>pathname = ''/github'', httpMethod = ''POST'', contentType = ctype,
      githubEvent = Some ''push'', hubSignature256 = sig, body = ''{}''\<rparr>"

text \<open>
  The default configuration with the flags of the section \<open>events\<close> replaced by the given
  value, as a configuration file with that section is merged into the defaults.
\<close>

definition configWithEvents :: "bool \<Rightarrow> jsval" where
  "configWithEvents b =
     (case defaultConfig of
        JObj sections \<Rightarrow>
          JObj ((''events'', JObj [(''push'', JBool b), (''issues'', JBool b),
                                   (''workflow_run'', JBool b), (''workflow_job'', JBool b)])
                # sections)
      | v \<Rightarrow> v)"

section \<open>Hexadecimal decoding\<close>

lemma String_replace_prefix: "String_replace pat rep (pat @ s) = rep @ s"
proof (cases "pat @ s")
  case Nil
  then show ?thesis by simp
next
  case (Cons c cs)
  have "prefix pat (c # cs)"
    unfolding Cons [symmetric] by simp
  moreover have "drop (length pat) (c # cs) = s"
    unfolding Cons [symmetric] by simp
  ultimately show ?thesis
    unfolding Cons by simp
qed

lemma nibble_cases:
  "n < 16 \<Longrightarrow> n \<in> {0, 1, 2, 3, 4, 5, 6, 7, 8, 9, 10, 11, 12, 13, 14, 15::nat}"
  unfolding insert_iff empty_iff by arith

lemma hexdigit_facts:
  assumes "n < 16"
  shows "digitValue (hexdigits ! n) = Some n"
    and "\<not> isWhiteSpace (hexdigits ! n)"
    and "hexdigits ! n \<noteq> CHR ''-''" and "hexdigits ! n \<noteq> CHR ''+''"
    and "hexdigits ! n \<noteq> CHR ''x''" and "hexdigits ! n \<noteq> CHR ''X''"
  using nibble_cases [OF assms]
  by (auto simp: hexdigits_def digitValue_def isWhiteSpace_def)

lemma parseInt_hex_pair:
  assumes "h < 16" "l < 16"
  shows "parseInt [hexdigits ! h, hexdigits ! l] 16 = Some (int (16 * h + l))"
  using hexdigit_facts [OF assms(1)] hexdigit_facts [OF assms(2)] assms
  by (simp add: parseInt_def isRadixDigit_def Let_def)

lemma parseInt_hex_byte:
  "toUint8 (parseInt [hexdigits ! (unat b div 16), hexdigits ! (unat b mod 16)] 16) = (b :: byte)"
proof -
  have "unat b < 256" using unsigned_less [of b] by simp
  then have h: "unat b div 16 < 16" by simp
  have l: "unat b mod 16 < 16" by simp
  have "16 * (unat b div 16) + unat b mod 16 = unat b" by simp
  then show ?thesis
    by (simp add: parseInt_hex_pair [OF h l] toUint8_def)
qed

lemma decodePairs_hexEncode: "decodePairs (hexEncode bs) = bs"
  by (induction bs) (simp_all add: hexEncode_def parseInt_hex_byte)


lemma length_decodePairs: "length (decodePairs s) = length s div 2"
  by (induction s rule: decodePairs.induct) simp_all


text \<open>The loop of \<open>hexToBuffer\<close>: the elements below \<open>i div 2\<close> are final, the rest follow.\<close>

lemma hexToBuffer_loop_decode:
  "length bytes = length hex div 2 \<Longrightarrow> even i \<Longrightarrow>
     hexToBuffer_loop hex i bytes = take (i div 2) bytes @ decodePairs (drop i hex)"
proof (induction hex i bytes rule: hexToBuffer_loop.induct)
  case (1 hex i bytes)
  show ?case
  proof (cases "i < length hex")
    case False
    with 1(2,3) have "length bytes \<le> i div 2" by presburger
    with False show ?thesis
      by (subst hexToBuffer_loop.simps) simp
  next
    case True
    then obtain a rest where dr: "drop i hex = a # rest"
      by (cases "drop i hex") auto
    let ?v = "toUint8 (parseInt (slice hex i (i + 2)) 16)"
    let ?bytes' = "typed_set bytes (i div 2) ?v"
    have len': "length ?bytes' = length hex div 2"
      using 1(2) by (simp add: typed_set_def)
    have ih: "hexToBuffer_loop hex (i + 2) ?bytes' =
                take ((i + 2) div 2) ?bytes' @ decodePairs (drop (i + 2) hex)"
      using 1(1) [OF True len'] 1(3) by simp
    have dr2: "drop (i + 2) hex = drop 2 (a # rest)"
      using dr by (metis add.commute drop_drop)
    have len: "length hex = i + Suc (length rest)"
    proof -
      have "length (drop i hex) = Suc (length rest)" using dr by simp
      with True show ?thesis by simp
    qed
    show ?thesis
    proof (cases rest)
      case Nil
      with len 1(2,3) have out: "length bytes = i div 2" by simp
      then have "?bytes' = bytes" by (simp add: typed_set_def)
      with ih dr dr2 Nil out True show ?thesis
        by (subst hexToBuffer_loop.simps) simp
    next
      case (Cons b rest')
      with len 1(2,3) have inr: "i div 2 < length bytes" by simp
      have sl: "slice hex i (i + 2) = [a, b]"
        using dr Cons by (simp add: slice_def)
      have "take ((i + 2) div 2) ?bytes' = take (i div 2) bytes @ [toUint8 (parseInt [a, b] 16)]"
        using inr sl by (simp add: typed_set_def take_Suc_conv_app_nth)
      with ih dr dr2 Cons True show ?thesis
        by (subst hexToBuffer_loop.simps) simp
    qed
  qed
qed

lemma hexToBuffer_decodePairs: "hexToBuffer hex = decodePairs hex"
  by (simp add: hexToBuffer_def hexToBuffer_loop_decode)

section \<open>SHA-256\<close>

text \<open>The known answer for the message \<open>abc\<close> (FIPS 180-4, one block).\<close>

lemma sha256_abc:
  "hexEncode (sha256 (TextEncoder_encode ''abc'')) =
     ''ba7816bf8f01cfea414140de5dae2223b00361a396177a9cb410ff61f20015ad''"
  by code_simp

text \<open>The digest, and with it the MAC, has 32 bytes.\<close>

lemma length_sha256_round: "length s = 8 \<Longrightarrow> length (sha256_round s kw) = 8"
proof -
  assume "length s = 8"
  then obtain a b c d e f g h where "s = [a, b, c, d, e, f, g, h]"
    by (auto simp: length_Suc_conv numeral_eq_Suc)
  then show ?thesis by (cases kw) (simp add: Let_def)
qed

lemma length_foldl_round: "length s = 8 \<Longrightarrow> length (foldl sha256_round s kws) = 8"
  by (induction kws arbitrary: s) (simp_all add: length_sha256_round)

lemma length_sha256_block: "length hs = 8 \<Longrightarrow> length (sha256_block hs blk) = 8"
  by (simp add: sha256_block_def Let_def length_foldl_round)

lemma length_foldl_block: "length hs = 8 \<Longrightarrow> length (foldl sha256_block hs blks) = 8"
  by (induction blks arbitrary: hs) (simp_all add: length_sha256_block)

lemma length_concat_u32_bytes: "length (concat (map u32_bytes ws)) = 4 * length ws"
  by (induction ws) (simp_all add: u32_bytes_def)

lemma length_sha256: "length (sha256 m) = 32"
  by (simp add: sha256_def length_concat_u32_bytes length_foldl_block sha256_H0_def)

lemma length_hmac_sha256: "length (hmac_sha256 key msg) = 32"
  by (simp add: hmac_sha256_def Let_def length_sha256)

section \<open>\<open>verifyGitHubSignature\<close>\<close>

lemma TextEncoder_encode_eq_Nil: "TextEncoder_encode s = [] \<longleftrightarrow> s = []"
  by (cases s) (simp_all add: TextEncoder_encode_def Let_def)

text \<open>
  The result of \<open>verifyGitHubSignature\<close> in one equation: the key must import, and the bytes
  decoded from the header, after the first \<open>sha256=\<close> is taken out, must be the MAC.
\<close>

lemma verify_iff:
  "verifyGitHubSignature signature payload sec \<longleftrightarrow>
     sec \<noteq> [] \<and>
     decodePairs (String_replace ''sha256='' [] signature) =
       hmac_sha256 (TextEncoder_encode sec) (TextEncoder_encode payload)"
  by (auto simp: verifyGitHubSignature_def verifyGitHubSignature_try_def importKey_def
      subtle_verify_def hexToBuffer_decodePairs TextEncoder_encode_eq_Nil Let_def)

lemma verify_wrong_length:
  "length (String_replace ''sha256='' [] signature) div 2 \<noteq> 32 \<Longrightarrow>
     \<not> verifyGitHubSignature signature payload sec"
  using length_decodePairs [of "String_replace ''sha256='' [] signature"]
    length_hmac_sha256 [of "TextEncoder_encode sec" "TextEncoder_encode payload"]
  by (auto simp: verify_iff)

text \<open>
  C1, as the claim states it, fails for the empty secret: the key import throws and the result
  is \<open>false\<close>, although the header carries the MAC of the body.
\<close>

theorem verify_empty_secret_counterexample:
  "\<not> verifyGitHubSignature
       (''sha256='' @ hexEncode (hmac_sha256 (TextEncoder_encode []) (TextEncoder_encode ''body'')))
       ''body'' []"
  by (simp add: verifyGitHubSignature_def verifyGitHubSignature_try_def importKey_def
      TextEncoder_encode_def)

text \<open>
  C1 (amended): for every body and every non-empty secret, \<open>verifyGitHubSignature\<close> called with
  \<open>sha256=\<close> followed by the lowercase hexadecimal encoding of the HMAC-SHA256 of the body under
  the secret, that body and that secret returns \<open>true\<close>.
\<close>

theorem verify_accepts_mac:
  "sec \<noteq> [] \<Longrightarrow>
     verifyGitHubSignature
       (''sha256='' @ hexEncode (hmac_sha256 (TextEncoder_encode sec) (TextEncoder_encode payload)))
       payload sec"
  by (simp add: verify_iff String_replace_prefix decodePairs_hexEncode)

theorem verify_accepts_mac_witness:
  "''key'' \<noteq> [] \<and>
   verifyGitHubSignature
     (''sha256='' @ hexEncode (hmac_sha256 (TextEncoder_encode ''key'') (TextEncoder_encode ''body'')))
     ''body'' ''key''"
  using verify_accepts_mac [of "''key''" "''body''"] by simp




text \<open>
  C8: the header \<open>00sha256=11\<close> does not begin with \<open>sha256=\<close>, yet what is decoded is not
  the whole header: \<open>replace\<close> takes the first \<open>sha256=\<close> out of the middle, and the bytes
  compared with the MAC are those of \<open>0011\<close>.
\<close>

theorem verify_inner_prefix_removed:
  "\<not> prefix ''sha256='' ''00sha256=11'' \<and>
   String_replace ''sha256='' [] ''00sha256=11'' = ''0011'' \<and>
   hexToBuffer (String_replace ''sha256='' [] ''00sha256=11'') = [0x00, 0x11] \<and>
   hexToBuffer ''00sha256=11'' = [0x00, 0x00, 0xa2, 0x56, 0x00]"
  by (simp add: hexToBuffer_decodePairs parseInt_def isWhiteSpace_def isRadixDigit_def
      digitValue_def toUint8_def Let_def)

section \<open>The event manager\<close>

lemma emit_handlers_invoked:
  "invoked (emit_handlers hs payload fx) =
     invoked fx @ map (\<lambda>h. (name h, fst (execute h payload))) hs"
  by (induction hs arbitrary: fx)
    (simp_all add: Let_def logging_def split: prod.splits sum.splits)

lemma emit_handlers_sent:
  "sent (emit_handlers hs payload fx) =
     sent fx @ concat (map (\<lambda>h. snd (execute h payload)) hs)"
  by (induction hs arbitrary: fx)
    (simp_all add: Let_def logging_def split: prod.splits sum.splits)

lemma lookup_subscribe:
  "lookup (subscribe h index e') e = (if e = e' then lookup index e @ [h] else lookup index e)"
  by (simp add: subscribe_def lookup_def)

lemma lookup_foldl_subscribe_other:
  "e \<notin> set es \<Longrightarrow> lookup (foldl (subscribe h) index es) e = lookup index e"
  by (induction es arbitrary: index) (simp_all add: lookup_subscribe)

lemma lookup_register_other:
  "\<forall>h \<in> set hs. e \<notin> set (events h) \<Longrightarrow> lookup (register hs index) e = lookup index e"
  unfolding register_def
  by (induction hs arbitrary: index) (simp_all add: lookup_foldl_subscribe_other)

text \<open>
  C7: after registering H1 (subscribed to \<open>push\<close>) and then H2 (subscribed to \<open>push\<close> and
  \<open>issues\<close>) in an empty registry, \<open>lookup\<close> of \<open>push\<close> returns \<open>[H1, H2]\<close>, of \<open>issues\<close>
  returns \<open>[H2]\<close>; and in any registry built by \<open>register\<close>, \<open>lookup\<close> of an event type that
  no registered handler subscribes to returns the empty sequence (\<open>lookup\<close> is total: it has no
  error result).
\<close>

theorem register_lookup:
  "(events h1 = [''push''] \<and> events h2 = [''push'', ''issues''] \<longrightarrow>
      lookup (register [h1, h2] Map.empty) ''push'' = [h1, h2] \<and>
      lookup (register [h1, h2] Map.empty) ''issues'' = [h2]) \<and>
   ((\<forall>h \<in> set hs. e \<notin> set (events h)) \<longrightarrow> lookup (register hs Map.empty) e = [])"
proof (intro conjI impI)
  assume "\<forall>h \<in> set hs. e \<notin> set (events h)"
  then show "lookup (register hs Map.empty) e = []"
    by (simp add: lookup_register_other) (simp add: lookup_def)
next
  assume ev: "events h1 = [''push''] \<and> events h2 = [''push'', ''issues'']"
  then show "lookup (register [h1, h2] Map.empty) ''push'' = [h1, h2]"
    by (simp add: register_def lookup_subscribe) (simp add: lookup_def)
  from ev show "lookup (register [h1, h2] Map.empty) ''issues'' = [h2]"
    by (simp add: register_def lookup_subscribe) (simp add: lookup_def)
qed

theorem register_lookup_witness:
  "events H1 = [''push''] \<and> events H2 = [''push'', ''issues''] \<and>
   lookup (register [H1, H2] Map.empty) ''push'' = [H1, H2] \<and>
   lookup (register [H1, H2] Map.empty) ''issues'' = [H2] \<and>
   ''unknown'' \<notin> set (events H1) \<and> ''unknown'' \<notin> set (events H2) \<and>
   lookup (register [H1, H2] Map.empty) ''unknown'' = []"
proof -
  have ev: "events H1 = [''push''] \<and> events H2 = [''push'', ''issues'']"
    by (simp add: H1_def H2_def)
  have un: "\<forall>h \<in> set [H1, H2]. ''unknown'' \<notin> set (events h)"
    by (simp add: H1_def H2_def)
  show ?thesis
    using ev un register_lookup [of H1 H2 "[H1, H2]" "''unknown''"] by simp
qed

section \<open>The server\<close>

text \<open>
  C6: for every request whose declared content type is not exactly \<open>application/json\<close> (or is
  absent), whatever its other headers and its body, the answer is 400 and no handler is invoked.
\<close>

theorem wrong_content_type_bad_request:
  "contentType req \<noteq> Some ''application/json'' \<Longrightarrow>
     status (fst (handleGitHubWebhook srv req)) = 400 \<and>
     invoked (snd (handleGitHubWebhook srv req)) = [] \<and>
     sent (snd (handleGitHubWebhook srv req)) = []"
  by (simp add: handleGitHubWebhook_def logging_def no_effects_def)

theorem wrong_content_type_bad_request_witness:
  "contentType (pushRequest (Some ''text/plain'') None) \<noteq> Some ''application/json'' \<and>
   status (fst (handleGitHubWebhook (testServer []) (pushRequest (Some ''text/plain'') None))) = 400 \<and>
   invoked (snd (handleGitHubWebhook (testServer []) (pushRequest (Some ''text/plain'') None))) = [] \<and>
   sent (snd (handleGitHubWebhook (testServer []) (pushRequest (Some ''text/plain'') None))) = []"
proof -
  have "contentType (pushRequest (Some ''text/plain'') None) \<noteq> Some ''application/json''"
    by (simp add: pushRequest_def)
  then show ?thesis
    using wrong_content_type_bad_request
      [of "pushRequest (Some ''text/plain'') None" "testServer []"]
    by blast
qed

text \<open>
  C3: for every POST to \<open>/github\<close> with content type \<open>application/json\<close> and a non-empty event
  type, when the server's secret is non-empty: if the signature header is absent, or it is present
  and \<open>verifyGitHubSignature\<close> returns \<open>false\<close>, the answer is 401 and no handler is invoked.
\<close>

theorem unauthorized_without_valid_signature:
  assumes "pathname req = ''/github''" and "httpMethod req = ''POST''"
    and "contentType req = Some ''application/json''"
    and "githubEvent req = Some eventType" and "eventType \<noteq> []"
    and "secret srv \<noteq> []"
    and "hubSignature256 req = None \<or>
         (\<exists>sg. hubSignature256 req = Some sg \<and>
               \<not> verifyGitHubSignature sg (body req) (secret srv))"
  shows "status (fst (handleRequest srv req)) = 401 \<and>
         invoked (snd (handleRequest srv req)) = [] \<and>
         sent (snd (handleRequest srv req)) = []"
proof -
  have route: "handleRequest srv req = handleGitHubWebhook srv req"
    using assms(1,2) by (simp add: handleRequest_def)
  from assms(7) show ?thesis
  proof
    assume "hubSignature256 req = None"
    with assms(3-6) show ?thesis
      unfolding route
      by (simp add: handleGitHubWebhook_def given_def logging_def no_effects_def)
  next
    assume "\<exists>sg. hubSignature256 req = Some sg \<and>
                 \<not> verifyGitHubSignature sg (body req) (secret srv)"
    then obtain sg where "hubSignature256 req = Some sg"
      and "\<not> verifyGitHubSignature sg (body req) (secret srv)" by blast
    with assms(3-6) show ?thesis
      unfolding route
      by (simp add: handleGitHubWebhook_def given_def logging_def no_effects_def)
  qed
qed

theorem unauthorized_without_valid_signature_witness:
  "secret (testServer ''key'') \<noteq> [] \<and>
   hubSignature256 (pushRequest (Some ''application/json'') None) = None \<and>
   status (fst (handleRequest (testServer ''key'')
     (pushRequest (Some ''application/json'') None))) = 401 \<and>
   invoked (snd (handleRequest (testServer ''key'')
     (pushRequest (Some ''application/json'') None))) = [] \<and>
   \<not> verifyGitHubSignature ''sha256=00''
       (body (pushRequest (Some ''application/json'') (Some ''sha256=00'')))
       (secret (testServer ''key'')) \<and>
   status (fst (handleRequest (testServer ''key'')
     (pushRequest (Some ''application/json'') (Some ''sha256=00'')))) = 401 \<and>
   invoked (snd (handleRequest (testServer ''key'')
     (pushRequest (Some ''application/json'') (Some ''sha256=00'')))) = []"
proof -
  let ?srv = "testServer ''key''"
  let ?absent = "pushRequest (Some ''application/json'') None"
  let ?wrong = "pushRequest (Some ''application/json'') (Some ''sha256=00'')"
  have sec: "secret ?srv \<noteq> []"
    by (simp add: testServer_def)
  have bad: "\<not> verifyGitHubSignature ''sha256=00'' (body ?wrong) (secret ?srv)"
    by (rule verify_wrong_length) simp
  have a: "status (fst (handleRequest ?srv ?absent)) = 401 \<and>
           invoked (snd (handleRequest ?srv ?absent)) = [] \<and>
           sent (snd (handleRequest ?srv ?absent)) = []"
    by (rule unauthorized_without_valid_signature [where eventType = "''push''"])
      (simp_all add: pushRequest_def sec)
  have w: "status (fst (handleRequest ?srv ?wrong)) = 401 \<and>
           invoked (snd (handleRequest ?srv ?wrong)) = [] \<and>
           sent (snd (handleRequest ?srv ?wrong)) = []"
  proof (rule unauthorized_without_valid_signature [where eventType = "''push''"])
    show "hubSignature256 ?wrong = None \<or>
          (\<exists>sg. hubSignature256 ?wrong = Some sg \<and>
                \<not> verifyGitHubSignature sg (body ?wrong) (secret ?srv))"
      using bad by (simp add: pushRequest_def)
  qed (simp_all add: pushRequest_def sec)
  have "hubSignature256 ?absent = None"
    by (simp add: pushRequest_def)
  with sec bad a w show ?thesis by blast
qed

text \<open>
  C4: for every request that reaches the dispatch (content type and event type accepted, the
  signature verified or no secret configured, the body parsed, the debug flag read), the answer
  is 202 and every handler matched by \<open>lookup\<close> is invoked exactly once, in registration order,
  whatever the outcomes are: a handler that raises or rejects stops neither the handlers after
  it nor the answer.
\<close>

theorem dispatch_isolates_handler_failure:
  assumes "contentType req = Some ''application/json''"
    and "githubEvent req = Some eventType" and "eventType \<noteq> []"
    and "secret srv = [] \<or>
         (\<exists>sg. hubSignature256 req = Some sg \<and> sg \<noteq> [] \<and>
               verifyGitHubSignature sg (body req) (secret srv))"
    and "JSON_parse srv (body req) = Inr payload"
    and "Config_get (config srv) (Some ''app'') (Some ''debug'') = Inr debug"
  shows "status (fst (handleGitHubWebhook srv req)) = 202 \<and>
         invoked (snd (handleGitHubWebhook srv req)) =
           map (\<lambda>h. (name h, fst (execute h payload))) (lookup (handlers srv) eventType) \<and>
         sent (snd (handleGitHubWebhook srv req)) =
           concat (map (\<lambda>h. snd (execute h payload)) (lookup (handlers srv) eventType))"
proof -
  have pass: "\<not> (secret srv \<noteq> [] \<and> \<not> given (hubSignature256 req))"
    "\<not> (secret srv \<noteq> [] \<and>
        \<not> verifyGitHubSignature (the (hubSignature256 req)) (body req) (secret srv))"
    using assms(4) by (auto simp: given_def)
  have ev: "given (githubEvent req)" "the (githubEvent req) = eventType"
    using assms(2,3) by (simp_all add: given_def)
  define fx :: "'a effects" where
    "fx = (if truthy debug
           then logging LDebug (''Received '' @ eventType @ '' event ('' @ eventType @
                  ''-'' @ timestamp srv @ '')'') no_effects
           else no_effects)"
  have fx0: "invoked fx = []" "sent fx = []"
    by (simp_all add: fx_def logging_def no_effects_def)
  have "handleGitHubWebhook srv req =
          (Response ''OK'' 202, emit (handlers srv) eventType payload fx)"
    using assms(1,5,6) pass ev
    by (simp add: handleGitHubWebhook_def Let_def fx_def)
  then show ?thesis
    by (simp add: emit_def emit_handlers_invoked emit_handlers_sent fx0)
qed

theorem dispatch_isolates_handler_failure_witness:
  "lookup (handlers (testServer [])) ''push'' = [H1, H2] \<and>
   fst (execute H1 (JObj [])) = Inl (Error ''H1 failed'') \<and>
   status (fst (handleGitHubWebhook (testServer [])
     (pushRequest (Some ''application/json'') None))) = 202 \<and>
   invoked (snd (handleGitHubWebhook (testServer [])
     (pushRequest (Some ''application/json'') None))) =
     [(''H1'', Inl (Error ''H1 failed'')), (''H2'', Inr ())] \<and>
   sent (snd (handleGitHubWebhook (testServer [])
     (pushRequest (Some ''application/json'') None))) = [''H2 notification'']"
proof -
  let ?srv = "testServer [] :: string server"
  let ?req = "pushRequest (Some ''application/json'') None"
  have lk: "lookup (handlers ?srv) ''push'' = [H1, H2]"
    by (simp add: testServer_def register_def lookup_subscribe H1_def H2_def)
      (simp add: lookup_def)
  have cfg: "Config_get (config ?srv) (Some ''app'') (Some ''debug'') = Inr (JBool False)"
    by (simp add: testServer_def Config_get_def defaultConfig_def given_def)
  have "status (fst (handleGitHubWebhook ?srv ?req)) = 202 \<and>
        invoked (snd (handleGitHubWebhook ?srv ?req)) =
          map (\<lambda>h. (name h, fst (execute h (JObj [])))) (lookup (handlers ?srv) ''push'') \<and>
        sent (snd (handleGitHubWebhook ?srv ?req)) =
          concat (map (\<lambda>h. snd (execute h (JObj []))) (lookup (handlers ?srv) ''push''))"
    by (rule dispatch_isolates_handler_failure [OF _ _ _ _ _ cfg])
      (simp_all add: pushRequest_def testServer_def)
  then show ?thesis
    unfolding lk by (simp add: H1_def H2_def)
qed

section \<open>The handlers\<close>

text \<open>
  C9: for every payload, when the enable flag of the handler's event type in the section
  \<open>events\<close> of the configuration is \<open>false\<close>, \<open>execute\<close> returns at once: the promise is
  fulfilled (no failure) and nothing is handed to \<open>Webhook.send\<close>. This holds for the push, the
  workflow-run and the workflow-job handler.
\<close>

theorem disabled_handler_is_noop:
  "(Config_get cfg (Some ''events'') (Some ''push'') = Inr (JBool False) \<longrightarrow>
      PushEvent_execute cfg render send payload = (Inr (), [])) \<and>
   (Config_get cfg (Some ''events'') (Some ''workflow_run'') = Inr (JBool False) \<longrightarrow>
      WorkflowRunEvent_execute cfg render send payload = (Inr (), [])) \<and>
   (Config_get cfg (Some ''events'') (Some ''workflow_job'') = Inr (JBool False) \<longrightarrow>
      WorkflowJobEvent_execute cfg render send payload = (Inr (), []))"
  by (simp add: PushEvent_execute_def WorkflowRunEvent_execute_def WorkflowJobEvent_execute_def)

lemma Config_get_events_flag:
  "k \<in> {''push'', ''workflow_run'', ''workflow_job''} \<Longrightarrow>
     Config_get (Some (configWithEvents b)) (Some ''events'') (Some k) = Inr (JBool b)"
  by (auto simp: Config_get_def configWithEvents_def defaultConfig_def given_def)

lemma Config_get_events_config:
  "k \<in> {''workflow_run'', ''workflow_job''} \<Longrightarrow>
     \<exists>c. Config_get (Some (configWithEvents b)) (Some ''events_config'') (Some k) = Inr c"
  by (auto simp: Config_get_def configWithEvents_def defaultConfig_def given_def)

theorem disabled_handler_is_noop_witness:
  "Config_get (Some (configWithEvents False)) (Some ''events'') (Some ''push'') =
     Inr (JBool False) \<and>
   PushEvent_execute (Some (configWithEvents False)) (\<lambda>c p. Inr ''message'') (\<lambda>m. Inr ())
     (JObj [(''ref'', JStr ''refs/heads/main'')]) = (Inr (), []) \<and>
   Config_get (Some (configWithEvents False)) (Some ''events'') (Some ''workflow_run'') =
     Inr (JBool False) \<and>
   WorkflowRunEvent_execute (Some (configWithEvents False)) (\<lambda>c p. Inr ''message'') (\<lambda>m. Inr ())
     (JObj [(''action'', JStr ''completed'')]) = (Inr (), []) \<and>
   Config_get (Some (configWithEvents False)) (Some ''events'') (Some ''workflow_job'') =
     Inr (JBool False) \<and>
   WorkflowJobEvent_execute (Some (configWithEvents False)) (\<lambda>c p. Inr ''message'') (\<lambda>m. Inr ())
     (JObj [(''action'', JStr ''completed'')]) = (Inr (), [])"
  using
    disabled_handler_is_noop [of "Some (configWithEvents False)" "\<lambda>c p. Inr ''message''"
      "\<lambda>m. Inr ()" "JObj [(''ref'', JStr ''refs/heads/main'')]"]
    disabled_handler_is_noop [of "Some (configWithEvents False)" "\<lambda>c p. Inr ''message''"
      "\<lambda>m. Inr ()" "JObj [(''action'', JStr ''completed'')]"]
    Config_get_events_flag [of "''push''" False]
    Config_get_events_flag [of "''workflow_run''" False]
    Config_get_events_flag [of "''workflow_job''" False]
  by simp

text \<open>
  C10: for every payload whose \<open>action\<close> is not the string \<open>completed\<close>, the workflow-run and
  the workflow-job handler hand nothing to \<open>Webhook.send\<close>, whatever the configuration says, so
  also when the event type is enabled; and when the payload is an object (not \<open>null\<close>) and the
  two configuration reads succeed, \<open>execute\<close> returns normally.
\<close>

theorem workflow_not_completed_sends_nothing:
  assumes "getProp payload ''action'' \<noteq> Inr (JStr ''completed'')"
  shows "snd (WorkflowRunEvent_execute cfg render send payload) = [] \<and>
         snd (WorkflowJobEvent_execute cfg render send payload) = [] \<and>
         (payload \<noteq> JNull \<and> payload \<noteq> JUndefined \<and>
          Config_get cfg (Some ''events'') (Some ''workflow_run'') = Inr flag \<and>
          Config_get cfg (Some ''events_config'') (Some ''workflow_run'') = Inr c \<longrightarrow>
            WorkflowRunEvent_execute cfg render send payload = (Inr (), [])) \<and>
         (payload \<noteq> JNull \<and> payload \<noteq> JUndefined \<and>
          Config_get cfg (Some ''events'') (Some ''workflow_job'') = Inr flag' \<and>
          Config_get cfg (Some ''events_config'') (Some ''workflow_job'') = Inr c' \<longrightarrow>
            WorkflowJobEvent_execute cfg render send payload = (Inr (), []))"
proof -
  have obj: "payload \<noteq> JNull \<Longrightarrow> payload \<noteq> JUndefined \<Longrightarrow>
             \<exists>a. getProp payload ''action'' = Inr a \<and> a \<noteq> JStr ''completed''"
    using assms by (cases payload) auto
  have run: "snd (WorkflowRunEvent_execute cfg render send payload) = []"
    using assms by (auto simp: WorkflowRunEvent_execute_def split: sum.splits)
  have job: "snd (WorkflowJobEvent_execute cfg render send payload) = []"
    using assms by (auto simp: WorkflowJobEvent_execute_def split: sum.splits)
  have run_ok: "WorkflowRunEvent_execute cfg render send payload = (Inr (), [])"
    if "payload \<noteq> JNull" "payload \<noteq> JUndefined"
      "Config_get cfg (Some ''events'') (Some ''workflow_run'') = Inr flag"
      "Config_get cfg (Some ''events_config'') (Some ''workflow_run'') = Inr c"
    using obj [OF that(1,2)] that(3,4) by (auto simp: WorkflowRunEvent_execute_def)
  have job_ok: "WorkflowJobEvent_execute cfg render send payload = (Inr (), [])"
    if "payload \<noteq> JNull" "payload \<noteq> JUndefined"
      "Config_get cfg (Some ''events'') (Some ''workflow_job'') = Inr flag'"
      "Config_get cfg (Some ''events_config'') (Some ''workflow_job'') = Inr c'"
    using obj [OF that(1,2)] that(3,4) by (auto simp: WorkflowJobEvent_execute_def)
  from run job run_ok job_ok show ?thesis by blast
qed

theorem workflow_not_completed_sends_nothing_witness:
  "getProp (JObj [(''action'', JStr ''requested'')]) ''action'' \<noteq> Inr (JStr ''completed'') \<and>
   Config_get (Some (configWithEvents True)) (Some ''events'') (Some ''workflow_run'') =
     Inr (JBool True) \<and>
   WorkflowRunEvent_execute (Some (configWithEvents True)) (\<lambda>c p. Inr ''message'') (\<lambda>m. Inr ())
     (JObj [(''action'', JStr ''requested'')]) = (Inr (), []) \<and>
   Config_get (Some (configWithEvents True)) (Some ''events'') (Some ''workflow_job'') =
     Inr (JBool True) \<and>
   WorkflowJobEvent_execute (Some (configWithEvents True)) (\<lambda>c p. Inr ''message'') (\<lambda>m. Inr ())
     (JObj [(''action'', JStr ''requested'')]) = (Inr (), [])"
proof -
  let ?cfg = "Some (configWithEvents True)"
  let ?payload = "JObj [(''action'', JStr ''requested'')]"
  have act: "getProp ?payload ''action'' \<noteq> Inr (JStr ''completed'')"
    by simp
  have run: "Config_get ?cfg (Some ''events'') (Some ''workflow_run'') = Inr (JBool True)"
    and job: "Config_get ?cfg (Some ''events'') (Some ''workflow_job'') = Inr (JBool True)"
    by (simp_all add: Config_get_events_flag)
  obtain c where c: "Config_get ?cfg (Some ''events_config'') (Some ''workflow_run'') = Inr c"
    using Config_get_events_config [of "''workflow_run''" True] by auto
  obtain c' where c': "Config_get ?cfg (Some ''events_config'') (Some ''workflow_job'') = Inr c'"
    using Config_get_events_config [of "''workflow_job''" True] by auto
  show ?thesis
    using act run job c c'
      workflow_not_completed_sends_nothing [OF act, of ?cfg "\<lambda>c p. Inr ''message''"
        "\<lambda>m. Inr ()" "JBool True" c "JBool True" c']
    by simp
qed

end
